theory Spec2Isabelle
  imports Complex_Main "HOL-Library.Monad_Syntax"
begin

section \<open>Values exchanged with the JavaScript runtime and the database\<close>

text \<open>
  A JavaScript string is its list of UTF-16 code units. Instants are milliseconds since the
  epoch, calendar days are counted from 1970-01-01, amounts are exact decimal numbers.
  An id in a row or in a verified token is the UUID itself.
\<close>

type_synonym js_string = "nat list"
type_synonym uuid = nat
type_synonym timestamp = int

definition utf16 :: "string \<Rightarrow> js_string" where
  "utf16 s = map of_char s"

text \<open>
  An id that a client sends, in a body or in the URL, is a text. The database reads a UUID
  in any of its spellings, while the handlers compare texts with \<open>===\<close>: a client's text
  equals an id taken from a row or a token only if it names the same UUID and is spelled
  the way the database prints it. A text that names no UUID makes the first query that
  uses it raise, and is outside this model.
\<close>

datatype uuid_text = UuidText uuid bool

fun uuid_value :: "uuid_text \<Rightarrow> uuid" where
  "uuid_value (UuidText u as_printed) = u"

fun same_text :: "uuid_text \<Rightarrow> uuid \<Rightarrow> bool" where
  "same_text (UuidText u as_printed) i = (as_printed \<and> u = i)"

text \<open>
  The date texts the code can tell apart: the empty string (falsy), a text that
  \<open>new Date\<close> turns into an Invalid Date, a calendar date \<open>YYYY-MM-DD\<close> (read by
  \<open>new Date\<close> as midnight UTC of that day), and the text \<open>Date.prototype.toString\<close>
  gives for a stored DATE column, which the driver hands over as local midnight of the day.
\<close>

datatype date_text = Blank | Garbage | IsoDate int | DateToString int

text \<open>
  What the code takes from its platform: the offset of local time from UTC at the local
  midnight of a day (milliseconds east of Greenwich), and \<open>bcrypt.compare\<close>.
\<close>

record runtime =
  tzOffset :: "int \<Rightarrow> int"
  bcrypt_compare :: "js_string \<Rightarrow> js_string \<Rightarrow> bool"

datatype UserRole = RoleUser | RoleApprover | RoleAdmin

datatype TravelRequestStatus = Draft | Pending | Approved | Rejected | Cancelled

record UserResponse =
  u_id :: uuid
  email :: js_string
  first_name :: js_string
  last_name :: js_string
  role :: UserRole
  is_active :: bool
  u_created_at :: timestamp
  u_updated_at :: timestamp

record User = UserResponse +
  password_hash :: js_string

record JWTPayload =
  token_userId :: uuid
  token_email :: js_string
  token_role :: UserRole

record TravelRequest =
  tr_id :: uuid
  user_id :: uuid
  approver_id :: uuid
  destination :: js_string
  departure_date :: int
  return_date :: int
  purpose :: js_string
  estimated_budget :: rat
  transportation_mode :: "js_string option"
  accommodation_details :: "js_string option"
  additional_notes :: "js_string option"
  status :: TravelRequestStatus
  approval_comments :: "js_string option"
  submitted_at :: "timestamp option"
  approved_rejected_at :: "timestamp option"
  created_at :: timestamp
  updated_at :: timestamp

text \<open>
  The JSON body of a create or update call: any of the nine fields may be missing
  (\<open>None\<close> is \<open>undefined\<close>). \<open>CreateTravelRequestData\<close> and
  \<open>UpdateTravelRequestData\<close> list the same fields, so one record serves both.
\<close>

record TravelRequestData =
  body_approver_id :: "uuid_text option"
  body_destination :: "js_string option"
  body_departure_date :: "date_text option"
  body_return_date :: "date_text option"
  body_purpose :: "js_string option"
  body_estimated_budget :: "rat option"
  body_transportation_mode :: "js_string option"
  body_accommodation_details :: "js_string option"
  body_additional_notes :: "js_string option"

type_synonym CreateTravelRequestData = TravelRequestData
type_synonym UpdateTravelRequestData = TravelRequestData

record UserUpdateData =
  set_email :: "js_string option"
  set_first_name :: "js_string option"
  set_last_name :: "js_string option"
  set_role :: "js_string option"
  set_is_active :: "bool option"

record database =
  users :: "User list"
  travel_requests :: "TravelRequest list"

datatype error =
    MISSING_FIELD | INVALID_DATE_RANGE | INVALID_BUDGET | CANNOT_SELF_APPROVE
  | APPROVER_NOT_FOUND | APPROVER_INACTIVE | NOT_AN_APPROVER | REQUEST_NOT_FOUND
  | FORBIDDEN | CANNOT_UPDATE_SUBMITTED | UPDATE_FAILED | COMMENTS_REQUIRED
  | CANNOT_SUBMIT | CANNOT_APPROVE | CANNOT_REJECT | CANNOT_CANCEL | CANNOT_DELETE
  | MISSING_FIELDS | INVALID_EMAIL | INVALID_CREDENTIALS | ACCOUNT_DEACTIVATED
  | USER_NOT_FOUND | EMAIL_EXISTS | INVALID_ROLE | CANNOT_DEACTIVATE_SELF
  | SERVER_ERROR

text \<open>A response is the HTTP status with the error kind, or the status with the data.\<close>

datatype 'a response = Failure nat error | Success nat 'a

subsection \<open>Truthiness\<close>

definition truthy_text :: "js_string option \<Rightarrow> bool" where
  "truthy_text v = (case v of None \<Rightarrow> False | Some s \<Rightarrow> s \<noteq> [])"

definition truthy_date :: "date_text option \<Rightarrow> bool" where
  "truthy_date v = (case v of None \<Rightarrow> False | Some d \<Rightarrow> d \<noteq> Blank)"

definition truthy_number :: "rat option \<Rightarrow> bool" where
  "truthy_number v = (case v of None \<Rightarrow> False | Some x \<Rightarrow> x \<noteq> 0)"

definition truthy_id :: "uuid_text option \<Rightarrow> bool" where
  "truthy_id v = (case v of None \<Rightarrow> False | Some _ \<Rightarrow> True)"

text \<open>\<open>v || null\<close> on an optional string.\<close>

definition or_null :: "js_string option \<Rightarrow> js_string option" where
  "or_null v = (if truthy_text v then v else None)"

subsection \<open>Strings: white space, \<open>trim\<close>, the e-mail pattern\<close>

text \<open>The code units of ECMAScript's WhiteSpace and LineTerminator.\<close>

definition isWhiteSpace :: "nat \<Rightarrow> bool" where
  "isWhiteSpace c =
     (c = 9 \<or> c = 10 \<or> c = 11 \<or> c = 12 \<or> c = 13 \<or> c = 32 \<or> c = 160 \<or> c = 5760
      \<or> (8192 \<le> c \<and> c \<le> 8202) \<or> c = 8232 \<or> c = 8233 \<or> c = 8239 \<or> c = 8287
      \<or> c = 12288 \<or> c = 65279)"

definition trim :: "js_string \<Rightarrow> js_string" where
  "trim s = rev (dropWhile isWhiteSpace (rev (dropWhile isWhiteSpace s)))"

text \<open>
  \<open>/^[^\s@]+@[^\s@]+\.[^\s@]+$/\<close>: a non-empty run free of white space and \<open>@\<close>, one
  \<open>@\<close>, and a rest free of white space and \<open>@\<close> that has a dot with at least one code unit
  on each side.
\<close>

definition emailChar :: "nat \<Rightarrow> bool" where
  "emailChar c = (\<not> isWhiteSpace c \<and> c \<noteq> 64)"

definition isValidEmail :: "js_string \<Rightarrow> bool" where
  "isValidEmail s =
     (takeWhile emailChar s \<noteq> [] \<and>
      (case dropWhile emailChar s of
         [] \<Rightarrow> False
       | c # d \<Rightarrow> c = 64 \<and> list_all emailChar d \<and> 46 \<in> set (butlast (tl d))))"

subsection \<open>Dates\<close>

definition msPerDay :: int where
  "msPerDay = 24 * 60 * 60 * 1000"

fun parseDate :: "runtime \<Rightarrow> date_text \<Rightarrow> int option" where
  "parseDate rt Blank = None"
| "parseDate rt Garbage = None"
| "parseDate rt (IsoDate n) = Some (n * msPerDay)"
| "parseDate rt (DateToString n) = Some (n * msPerDay - tzOffset rt n)"

definition isValidDateRange :: "runtime \<Rightarrow> date_text \<Rightarrow> date_text \<Rightarrow> bool" where
  "isValidDateRange rt departureDate returnDate =
     (case parseDate rt departureDate of
        None \<Rightarrow> False
      | Some departure \<Rightarrow>
          (case parseDate rt returnDate of
             None \<Rightarrow> False
           | Some returnD \<Rightarrow> returnD \<ge> departure))"

subsection \<open>The database's input conversions\<close>

text \<open>
  A statement whose parameter the column type refuses raises, whether or not a row
  matches; \<open>None\<close> is that error.

  DATE takes the calendar dates of the years 0001 to 9999: day \<open>-719162\<close> is 0001-01-01 and
  day \<open>2932896\<close> is 9999-12-31. The year 0000, which \<open>new Date\<close> reads, is refused.
\<close>

fun pg_date :: "date_text \<Rightarrow> int option" where
  "pg_date (IsoDate n) = (if - 719162 \<le> n \<and> n \<le> 2932896 then Some n else None)"
| "pg_date _ = None"

text \<open>
  The driver sends a string as UTF-8. A high surrogate followed by a low one is one
  character; a surrogate on its own is sent, and stored, as U+FFFD. A text holding
  U+0000 is refused by every text column.
\<close>

definition highSurrogate :: "nat \<Rightarrow> bool" where
  "highSurrogate c = (55296 \<le> c \<and> c \<le> 56319)"

definition lowSurrogate :: "nat \<Rightarrow> bool" where
  "lowSurrogate c = (56320 \<le> c \<and> c \<le> 57343)"

definition single :: "nat \<Rightarrow> js_string" where
  "single c = (if highSurrogate c \<or> lowSurrogate c then [65533] else [c])"

fun characters :: "js_string \<Rightarrow> js_string list" where
  "characters [] = []"
| "characters [c] = [single c]"
| "characters (c # d # rest) =
     (if highSurrogate c \<and> lowSurrogate d then [c, d] # characters rest
      else single c # characters (d # rest))"

definition pg_text :: "js_string \<Rightarrow> js_string option" where
  "pg_text s = (if 0 \<in> set s then None else Some (concat (characters s)))"

text \<open>
  VARCHAR(n) takes up to \<open>n\<close> characters, and cuts a longer text whose excess is all
  spaces. DECIMAL(10,2) rounds half away from zero to two places and refuses more than
  eight integer digits.
\<close>

definition pg_varchar :: "nat \<Rightarrow> js_string \<Rightarrow> js_string option" where
  "pg_varchar n s =
     (if 0 \<in> set s then None
      else if length (characters s) \<le> n then Some (concat (characters s))
      else if list_all (\<lambda>c. c = [32]) (drop n (characters s))
        then Some (concat (take n (characters s)))
      else None)"

definition round_half_away :: "rat \<Rightarrow> int" where
  "round_half_away x = (if x < 0 then - \<lfloor>- x + 1 / 2\<rfloor> else \<lfloor>x + 1 / 2\<rfloor>)"

definition pg_decimal_10_2 :: "rat \<Rightarrow> rat option" where
  "pg_decimal_10_2 x =
     (let c = round_half_away (x * 100)
      in if \<bar>c\<bar> < 10 ^ 10 then Some (of_int c / 100) else None)"

text \<open>A parameter that is \<open>undefined\<close> leaves the column alone; a defined one is converted.\<close>

definition converted :: "('a \<Rightarrow> 'b option) \<Rightarrow> 'a option \<Rightarrow> 'b option option" where
  "converted f v = (case v of None \<Rightarrow> Some None | Some x \<Rightarrow> map_option Some (f x))"

definition assign :: "'a option \<Rightarrow> 'a \<Rightarrow> 'a" where
  "assign v old = (case v of None \<Rightarrow> old | Some x \<Rightarrow> x)"


section \<open>The travel request model: statements on \<open>travel_requests\<close>\<close>

definition user_exists :: "database \<Rightarrow> uuid \<Rightarrow> bool" where
  "user_exists db i = list_ex (\<lambda>u. u_id u = i) (users db)"

text \<open>
  The table's constraints on a row: both foreign keys, \<open>estimated_budget > 0\<close>,
  \<open>check_dates\<close> and \<open>check_approver_not_self\<close>. A statement that would store a row
  breaking one of them raises and changes nothing.
\<close>

definition row_ok :: "database \<Rightarrow> TravelRequest \<Rightarrow> bool" where
  "row_ok db r =
     (user_exists db (user_id r) \<and> user_exists db (approver_id r) \<and>
      estimated_budget r > 0 \<and> return_date r \<ge> departure_date r \<and>
      user_id r \<noteq> approver_id r)"

text \<open>
  \<open>INSERT ... RETURNING *\<close>. The new id is the one \<open>gen_random_uuid()\<close> draws and
  \<open>now\<close> is CURRENT_TIMESTAMP; \<open>None\<close> is a query that raised.
\<close>

definition createTravelRequest ::
  "uuid \<Rightarrow> timestamp \<Rightarrow> uuid \<Rightarrow> CreateTravelRequestData \<Rightarrow> bool \<Rightarrow> database
     \<Rightarrow> (TravelRequest \<times> database) option" where
  "createTravelRequest newId now userId requestData isDraft db =
     do {
       approver \<leftarrow> map_option uuid_value (body_approver_id requestData);
       dest \<leftarrow> Option.bind (body_destination requestData) (pg_varchar 255);
       dep \<leftarrow> Option.bind (body_departure_date requestData) pg_date;
       ret \<leftarrow> Option.bind (body_return_date requestData) pg_date;
       purp \<leftarrow> Option.bind (body_purpose requestData) pg_text;
       budget \<leftarrow> Option.bind (body_estimated_budget requestData) pg_decimal_10_2;
       mode \<leftarrow> converted (pg_varchar 50) (or_null (body_transportation_mode requestData));
       accommodation \<leftarrow> converted pg_text (or_null (body_accommodation_details requestData));
       notes \<leftarrow> converted pg_text (or_null (body_additional_notes requestData));
       let row = \<lparr> tr_id = newId, user_id = userId, approver_id = approver,
                   destination = dest, departure_date = dep, return_date = ret,
                   purpose = purp, estimated_budget = budget,
                   transportation_mode = mode,
                   accommodation_details = accommodation,
                   additional_notes = notes,
                   status = (if isDraft then Draft else Pending),
                   approval_comments = None,
                   submitted_at = (if isDraft then None else Some now),
                   approved_rejected_at = None,
                   created_at = now, updated_at = now \<rparr>;
       if row_ok db row \<and> newId \<notin> set (map tr_id (travel_requests db))
       then Some (row, db\<lparr>travel_requests := travel_requests db @ [row]\<rparr>)
       else None
     }"

definition findTravelRequestById :: "database \<Rightarrow> uuid \<Rightarrow> TravelRequest option" where
  "findTravelRequestById db requestId =
     find (\<lambda>r. tr_id r = requestId) (travel_requests db)"

text \<open>\<open>fields.length === 0\<close>: no field of the body is defined.\<close>

definition no_fields :: "UpdateTravelRequestData \<Rightarrow> bool" where
  "no_fields updateData =
     (body_approver_id updateData = None \<and> body_destination updateData = None \<and>
      body_departure_date updateData = None \<and> body_return_date updateData = None \<and>
      body_purpose updateData = None \<and> body_estimated_budget updateData = None \<and>
      body_transportation_mode updateData = None \<and>
      body_accommodation_details updateData = None \<and>
      body_additional_notes updateData = None)"

text \<open>
  \<open>UPDATE ... SET <the defined fields>, updated_at = CURRENT_TIMESTAMP WHERE id = $n AND
  status = 'draft' RETURNING *\<close>, answering \<open>rows[0] || null\<close>. The outer \<open>None\<close> is a
  query that raised: a parameter its column refuses, or a changed row that breaks a
  constraint.
\<close>

definition updateTravelRequest ::
  "timestamp \<Rightarrow> uuid \<Rightarrow> UpdateTravelRequestData \<Rightarrow> database
     \<Rightarrow> (TravelRequest option \<times> database) option" where
  "updateTravelRequest now requestId updateData db =
     (if no_fields updateData then Some (findTravelRequestById db requestId, db)
      else do {
        dest \<leftarrow> converted (pg_varchar 255) (body_destination updateData);
        dep \<leftarrow> converted pg_date (body_departure_date updateData);
        ret \<leftarrow> converted pg_date (body_return_date updateData);
        purp \<leftarrow> converted pg_text (body_purpose updateData);
        budget \<leftarrow> converted pg_decimal_10_2 (body_estimated_budget updateData);
        mode \<leftarrow> converted (pg_varchar 50) (body_transportation_mode updateData);
        accommodation \<leftarrow> converted pg_text (body_accommodation_details updateData);
        notes \<leftarrow> converted pg_text (body_additional_notes updateData);
        let hit = (\<lambda>r. tr_id r = requestId \<and> status r = Draft);
        let change = (\<lambda>r. r\<lparr> approver_id :=
                                assign (map_option uuid_value (body_approver_id updateData))
                                  (approver_id r),
                              destination := assign dest (destination r),
                              departure_date := assign dep (departure_date r),
                              return_date := assign ret (return_date r),
                              purpose := assign purp (purpose r),
                              estimated_budget := assign budget (estimated_budget r),
                              transportation_mode :=
                                assign (map_option Some mode) (transportation_mode r),
                              accommodation_details :=
                                assign (map_option Some accommodation) (accommodation_details r),
                              additional_notes :=
                                assign (map_option Some notes) (additional_notes r),
                              updated_at := now \<rparr>);
        let changed = map change (filter hit (travel_requests db));
        if list_all (row_ok db) changed
        then Some (case changed of [] \<Rightarrow> None | r # _ \<Rightarrow> Some r,
                   db\<lparr>travel_requests :=
                        map (\<lambda>r. if hit r then change r else r) (travel_requests db)\<rparr>)
        else None
      })"

text \<open>
  The four status changes are one statement each, \<open>UPDATE ... WHERE id = $1 AND status =
  <expected> RETURNING *\<close>, answering \<open>rows[0] || null\<close>. They leave the constrained
  columns alone. Approve and reject pass the comments as a parameter of the TEXT column
  \<open>approval_comments\<close>; for them \<open>None\<close> is a query that raised.
\<close>

definition update_where_status ::
  "uuid \<Rightarrow> TravelRequestStatus \<Rightarrow> (TravelRequest \<Rightarrow> TravelRequest) \<Rightarrow> database
     \<Rightarrow> TravelRequest option \<times> database" where
  "update_where_status requestId expected change db =
     (let hit = (\<lambda>r. tr_id r = requestId \<and> status r = expected)
      in (case map change (filter hit (travel_requests db)) of
            [] \<Rightarrow> None
          | r # _ \<Rightarrow> Some r,
          db\<lparr>travel_requests :=
               map (\<lambda>r. if hit r then change r else r) (travel_requests db)\<rparr>))"

definition submitDraftRequest ::
  "timestamp \<Rightarrow> uuid \<Rightarrow> database \<Rightarrow> TravelRequest option \<times> database" where
  "submitDraftRequest now requestId db =
     update_where_status requestId Draft
       (\<lambda>r. r\<lparr>status := Pending, submitted_at := Some now, updated_at := now\<rparr>) db"

definition approveTravelRequest ::
  "timestamp \<Rightarrow> uuid \<Rightarrow> js_string option \<Rightarrow> database
     \<Rightarrow> (TravelRequest option \<times> database) option" where
  "approveTravelRequest now requestId comments db =
     do {
       stored \<leftarrow> converted pg_text (or_null comments);
       Some (update_where_status requestId Pending
               (\<lambda>r. r\<lparr>status := Approved, approval_comments := stored,
                       approved_rejected_at := Some now, updated_at := now\<rparr>) db)
     }"

definition rejectTravelRequest ::
  "timestamp \<Rightarrow> uuid \<Rightarrow> js_string \<Rightarrow> database
     \<Rightarrow> (TravelRequest option \<times> database) option" where
  "rejectTravelRequest now requestId comments db =
     do {
       stored \<leftarrow> pg_text comments;
       Some (update_where_status requestId Pending
               (\<lambda>r. r\<lparr>status := Rejected, approval_comments := Some stored,
                       approved_rejected_at := Some now, updated_at := now\<rparr>) db)
     }"

definition cancelTravelRequest ::
  "timestamp \<Rightarrow> uuid \<Rightarrow> database \<Rightarrow> TravelRequest option \<times> database" where
  "cancelTravelRequest now requestId db =
     update_where_status requestId Pending
       (\<lambda>r. r\<lparr>status := Cancelled, updated_at := now\<rparr>) db"

text \<open>\<open>DELETE ... WHERE id = $1 AND status = 'draft' RETURNING id\<close>, answering \<open>rowCount > 0\<close>.\<close>

definition deleteTravelRequest :: "uuid \<Rightarrow> database \<Rightarrow> bool \<times> database" where
  "deleteTravelRequest requestId db =
     (let hit = (\<lambda>r. tr_id r = requestId \<and> status r = Draft)
      in (length (filter hit (travel_requests db)) > 0,
          db\<lparr>travel_requests := filter (\<lambda>r. \<not> hit r) (travel_requests db)\<rparr>))"

record TravelRequestStats =
  total :: nat
  draft :: nat
  pending :: nat
  approved :: nat
  rejected :: nat
  cancelled :: nat

text \<open>\<open>COUNT( * )\<close> and the five \<open>COUNT( * ) FILTER (WHERE status = ...)\<close> over the rows the
  optional \<open>WHERE user_id = $1\<close> keeps.\<close>

definition countTravelRequests :: "uuid option \<Rightarrow> database \<Rightarrow> TravelRequestStats" where
  "countTravelRequests userId db =
     (let rows = (case userId of
                    None \<Rightarrow> travel_requests db
                  | Some u \<Rightarrow> filter (\<lambda>r. user_id r = u) (travel_requests db));
          count = (\<lambda>s. length (filter (\<lambda>r. status r = s) rows))
      in \<lparr> total = length rows, draft = count Draft, pending = count Pending,
           approved = count Approved, rejected = count Rejected,
           cancelled = count Cancelled \<rparr>)"

definition isRequestOwner :: "database \<Rightarrow> uuid \<Rightarrow> uuid \<Rightarrow> bool" where
  "isRequestOwner db requestId userId =
     (length (filter (\<lambda>r. tr_id r = requestId \<and> user_id r = userId) (travel_requests db)) > 0)"

definition isRequestApprover :: "database \<Rightarrow> uuid \<Rightarrow> uuid \<Rightarrow> bool" where
  "isRequestApprover db requestId userId =
     (length (filter (\<lambda>r. tr_id r = requestId \<and> approver_id r = userId) (travel_requests db)) > 0)"

section \<open>The user model: statements on \<open>users\<close>\<close>

definition findUserById :: "database \<Rightarrow> uuid \<Rightarrow> User option" where
  "findUserById db i = find (\<lambda>u. u_id u = i) (users db)"

text \<open>
  The two lookups by e-mail pass a client's text as a parameter: \<open>None\<close> is a query that
  raised.
\<close>

definition findUserByEmail :: "database \<Rightarrow> js_string \<Rightarrow> User option option" where
  "findUserByEmail db e =
     do {
       sent \<leftarrow> pg_text e;
       Some (find (\<lambda>u. email u = sent) (users db))
     }"

definition emailExists :: "database \<Rightarrow> js_string \<Rightarrow> uuid option \<Rightarrow> bool option" where
  "emailExists db e excludeUserId =
     do {
       sent \<leftarrow> pg_text e;
       Some (length (filter (\<lambda>u. email u = sent \<and>
                       (case excludeUserId of None \<Rightarrow> True | Some x \<Rightarrow> u_id u \<noteq> x))
               (users db)) > 0)
     }"

definition sanitizeUser :: "User \<Rightarrow> UserResponse" where
  "sanitizeUser user =
     \<lparr> u_id = u_id user, email = email user, first_name = first_name user,
       last_name = last_name user, role = role user, is_active = is_active user,
       u_created_at = u_created_at user, u_updated_at = u_updated_at user \<rparr>"

definition role_of_text :: "js_string \<Rightarrow> UserRole option" where
  "role_of_text s =
     (if s = utf16 ''user'' then Some RoleUser
      else if s = utf16 ''approver'' then Some RoleApprover
      else if s = utf16 ''admin'' then Some RoleAdmin
      else None)"

definition no_user_fields :: "UserUpdateData \<Rightarrow> bool" where
  "no_user_fields updateData =
     (set_email updateData = None \<and> set_first_name updateData = None \<and>
      set_last_name updateData = None \<and> set_role updateData = None \<and>
      set_is_active updateData = None)"

text \<open>
  \<open>UPDATE users SET <the defined fields>, updated_at = CURRENT_TIMESTAMP WHERE id = $n
  RETURNING *\<close>. The statement raises on a text its column refuses, on a role outside the
  CHECK list and, when it writes the e-mail, on an e-mail another row holds (UNIQUE).
\<close>

definition updateUser ::
  "timestamp \<Rightarrow> uuid \<Rightarrow> UserUpdateData \<Rightarrow> database \<Rightarrow> (User option \<times> database) option" where
  "updateUser now userId updateData db =
     (if no_user_fields updateData then Some (findUserById db userId, db)
      else do {
        e \<leftarrow> converted (pg_varchar 255) (set_email updateData);
        fn \<leftarrow> converted (pg_varchar 100) (set_first_name updateData);
        ln \<leftarrow> converted (pg_varchar 100) (set_last_name updateData);
        rl \<leftarrow> converted role_of_text (set_role updateData);
        let hit = (\<lambda>u. u_id u = userId);
        let change = (\<lambda>u. u\<lparr> email := assign e (email u),
                              first_name := assign fn (first_name u),
                              last_name := assign ln (last_name u),
                              role := assign rl (role u),
                              is_active := assign (set_is_active updateData) (is_active u),
                              u_updated_at := now \<rparr>);
        let changed = map change (filter hit (users db));
        if e = None \<or>
           list_all (\<lambda>u. filter (\<lambda>v. email v = email u \<and> u_id v \<noteq> userId) (users db) = [])
             changed
        then Some (case changed of [] \<Rightarrow> None | u # _ \<Rightarrow> Some u,
                   db\<lparr>users := map (\<lambda>u. if hit u then change u else u) (users db)\<rparr>)
        else None
      })"

section \<open>The notification mails\<close>

text \<open>
  \<open>findTravelRequestWithUsers\<close>: the request joined with its requester and its approver,
  \<open>rows[0] || null\<close>. Under the primary keys the join has at most one row.
\<close>

type_synonym TravelRequestWithUsers = "TravelRequest \<times> UserResponse \<times> UserResponse"

definition findTravelRequestWithUsers ::
  "database \<Rightarrow> uuid \<Rightarrow> TravelRequestWithUsers option" where
  "findTravelRequestWithUsers db requestId =
     (case findTravelRequestById db requestId of
        None \<Rightarrow> None
      | Some request \<Rightarrow>
          (case findUserById db (user_id request) of
             None \<Rightarrow> None
           | Some requester \<Rightarrow>
               (case findUserById db (approver_id request) of
                  None \<Rightarrow> None
                | Some approver \<Rightarrow>
                    Some (request, sanitizeUser requester, sanitizeUser approver))))"

text \<open>
  The driver hands a DECIMAL column to JavaScript as a string (\<open>database.ts\<close> sets no
  type parser), and only a number has \<open>toFixed\<close>: on a string the call raises a TypeError.
\<close>

datatype js_value = JsNumber rat | JsString

fun toFixed :: "js_value \<Rightarrow> unit option" where
  "toFixed (JsNumber x) = Some ()"
| "toFixed JsString = None"

definition decimal_column :: "rat \<Rightarrow> js_value" where
  "decimal_column x = JsString"

text \<open>
  Each mail builds its text and then calls \<open>sendEmail\<close>, which catches whatever the
  transport and the log raise; the handlers do not read its boolean. The submission and
  approval texts hold \<open>request.estimated_budget.toFixed(2)\<close>, evaluated before
  \<open>sendEmail\<close> and outside any \<open>try\<close>; the rejection and cancellation texts do not read
  the budget. \<open>None\<close> is a mail that raised.
\<close>

definition sendSubmissionNotification :: "TravelRequestWithUsers \<Rightarrow> unit option" where
  "sendSubmissionNotification request =
     do {
       budget \<leftarrow> toFixed (decimal_column (estimated_budget (fst request)));
       Some ()
     }"

definition sendApprovalNotification :: "TravelRequestWithUsers \<Rightarrow> unit option" where
  "sendApprovalNotification request =
     do {
       budget \<leftarrow> toFixed (decimal_column (estimated_budget (fst request)));
       Some ()
     }"

definition sendRejectionNotification :: "TravelRequestWithUsers \<Rightarrow> unit option" where
  "sendRejectionNotification request = Some ()"

definition sendCancellationNotification :: "TravelRequestWithUsers \<Rightarrow> unit option" where
  "sendCancellationNotification request = Some ()"

section \<open>The travel request controller\<close>

text \<open>
  Every handler takes the verified token's payload (\<open>req.user\<close>), the route and body
  values, CURRENT_TIMESTAMP, and the database; it returns the response and the database
  after it. A query or a mail that raises is caught by the handler and answered with
  500 SERVER_ERROR; what was written before stays written. The id in the URL of a request
  is only ever a query parameter, so it is taken as the UUID it names.
\<close>

text \<open>
  After a write: \<open>const requestWithUsers = await findTravelRequestWithUsers(id); if
  (requestWithUsers) { await send(requestWithUsers); }\<close>, then the answer \<open>ok\<close>.
\<close>

definition notify ::
  "(TravelRequestWithUsers \<Rightarrow> unit option) \<Rightarrow> database \<Rightarrow> uuid \<Rightarrow> 'a response
     \<Rightarrow> 'a response" where
  "notify send db requestId ok =
     (case findTravelRequestWithUsers db requestId of
        None \<Rightarrow> ok
      | Some requestWithUsers \<Rightarrow>
          (case send requestWithUsers of
             None \<Rightarrow> Failure 500 SERVER_ERROR
           | Some _ \<Rightarrow> ok))"

definition requiredFields :: "string list" where
  "requiredFields =
     [''approver_id'', ''destination'', ''departure_date'', ''return_date'', ''purpose'',
      ''estimated_budget'']"

text \<open>\<open>requestData[field]\<close> is truthy.\<close>

definition field_truthy :: "TravelRequestData \<Rightarrow> string \<Rightarrow> bool" where
  "field_truthy requestData field =
     (if field = ''approver_id'' then truthy_id (body_approver_id requestData)
      else if field = ''destination'' then truthy_text (body_destination requestData)
      else if field = ''departure_date'' then truthy_date (body_departure_date requestData)
      else if field = ''return_date'' then truthy_date (body_return_date requestData)
      else if field = ''purpose'' then truthy_text (body_purpose requestData)
      else if field = ''estimated_budget'' then truthy_number (body_estimated_budget requestData)
      else if field = ''transportation_mode''
        then truthy_text (body_transportation_mode requestData)
      else if field = ''accommodation_details''
        then truthy_text (body_accommodation_details requestData)
      else if field = ''additional_notes'' then truthy_text (body_additional_notes requestData)
      else False)"

text \<open>
  \<open>createRequest\<close>. The last branch of the inner case is never taken: after the loop over
  \<open>requiredFields\<close> the four values are defined.
\<close>

definition createRequest ::
  "runtime \<Rightarrow> JWTPayload \<Rightarrow> bool \<Rightarrow> uuid \<Rightarrow> timestamp \<Rightarrow> CreateTravelRequestData \<Rightarrow> database
     \<Rightarrow> TravelRequest response \<times> database" where
  "createRequest rt actor shouldSubmit newId now requestData db =
     (case find (\<lambda>field. \<not> field_truthy requestData field) requiredFields of
        Some field \<Rightarrow> (Failure 400 MISSING_FIELD, db)
      | None \<Rightarrow>
          (case (body_approver_id requestData, body_departure_date requestData,
                 body_return_date requestData, body_estimated_budget requestData) of
             (Some approverId, Some departure, Some returnD, Some budget) \<Rightarrow>
               if \<not> isValidDateRange rt departure returnD
                 then (Failure 400 INVALID_DATE_RANGE, db)
               else if budget \<le> 0 then (Failure 400 INVALID_BUDGET, db)
               else if same_text approverId (token_userId actor)
                 then (Failure 400 CANNOT_SELF_APPROVE, db)
               else (case findUserById db (uuid_value approverId) of
                       None \<Rightarrow> (Failure 404 APPROVER_NOT_FOUND, db)
                     | Some approver \<Rightarrow>
                         if \<not> is_active approver then (Failure 400 APPROVER_INACTIVE, db)
                         else if role approver \<noteq> RoleApprover \<and> role approver \<noteq> RoleAdmin
                           then (Failure 400 NOT_AN_APPROVER, db)
                         else (case createTravelRequest newId now (token_userId actor)
                                      requestData (\<not> shouldSubmit) db of
                                 None \<Rightarrow> (Failure 500 SERVER_ERROR, db)
                               | Some (newRequest, db') \<Rightarrow>
                                   if shouldSubmit
                                   then (notify sendSubmissionNotification db'
                                           (tr_id newRequest) (Success 201 newRequest), db')
                                   else (Success 201 newRequest, db')))
           | _ \<Rightarrow> (Failure 400 MISSING_FIELD, db)))"

text \<open>\<open>a || b\<close> on date texts.\<close>

definition date_or :: "date_text option \<Rightarrow> date_text \<Rightarrow> date_text" where
  "date_or v fallback = (case v of None \<Rightarrow> fallback | Some d \<Rightarrow> if d = Blank then fallback else d)"

definition updateRequest ::
  "runtime \<Rightarrow> JWTPayload \<Rightarrow> timestamp \<Rightarrow> uuid \<Rightarrow> UpdateTravelRequestData \<Rightarrow> database
     \<Rightarrow> TravelRequest response \<times> database" where
  "updateRequest rt actor now requestId updateData db =
     (case findTravelRequestById db requestId of
        None \<Rightarrow> (Failure 404 REQUEST_NOT_FOUND, db)
      | Some existingRequest \<Rightarrow>
          if user_id existingRequest \<noteq> token_userId actor then (Failure 403 FORBIDDEN, db)
          else if status existingRequest \<noteq> Draft then (Failure 400 CANNOT_UPDATE_SUBMITTED, db)
          else if (truthy_date (body_departure_date updateData) \<or>
                   truthy_date (body_return_date updateData)) \<and>
                  \<not> isValidDateRange rt
                      (date_or (body_departure_date updateData)
                         (DateToString (departure_date existingRequest)))
                      (date_or (body_return_date updateData)
                         (DateToString (return_date existingRequest)))
            then (Failure 400 INVALID_DATE_RANGE, db)
          else if (case body_estimated_budget updateData of None \<Rightarrow> False | Some b \<Rightarrow> b \<le> 0)
            then (Failure 400 INVALID_BUDGET, db)
          else (case updateTravelRequest now requestId updateData db of
                  None \<Rightarrow> (Failure 500 SERVER_ERROR, db)
                | Some (None, db') \<Rightarrow> (Failure 500 UPDATE_FAILED, db')
                | Some (Some updatedRequest, db') \<Rightarrow> (Success 200 updatedRequest, db')))"

definition submitRequest ::
  "JWTPayload \<Rightarrow> timestamp \<Rightarrow> uuid \<Rightarrow> database \<Rightarrow> TravelRequest response \<times> database" where
  "submitRequest actor now requestId db =
     (if \<not> isRequestOwner db requestId (token_userId actor) then (Failure 403 FORBIDDEN, db)
      else (case submitDraftRequest now requestId db of
              (None, db') \<Rightarrow> (Failure 400 CANNOT_SUBMIT, db')
            | (Some submittedRequest, db') \<Rightarrow>
                (notify sendSubmissionNotification db' requestId
                   (Success 200 submittedRequest), db')))"

definition approveRequest ::
  "JWTPayload \<Rightarrow> timestamp \<Rightarrow> uuid \<Rightarrow> js_string option \<Rightarrow> database
     \<Rightarrow> TravelRequest response \<times> database" where
  "approveRequest actor now requestId comments db =
     (if \<not> isRequestApprover db requestId (token_userId actor) \<and> token_role actor \<noteq> RoleAdmin
        then (Failure 403 FORBIDDEN, db)
      else (case approveTravelRequest now requestId comments db of
              None \<Rightarrow> (Failure 500 SERVER_ERROR, db)
            | Some (None, db') \<Rightarrow> (Failure 400 CANNOT_APPROVE, db')
            | Some (Some approvedRequest, db') \<Rightarrow>
                (notify sendApprovalNotification db' requestId
                   (Success 200 approvedRequest), db')))"

definition rejectRequest ::
  "JWTPayload \<Rightarrow> timestamp \<Rightarrow> uuid \<Rightarrow> js_string option \<Rightarrow> database
     \<Rightarrow> TravelRequest response \<times> database" where
  "rejectRequest actor now requestId comments db =
     (case comments of
        None \<Rightarrow> (Failure 400 COMMENTS_REQUIRED, db)
      | Some text \<Rightarrow>
          if text = [] \<or> length (trim text) = 0 then (Failure 400 COMMENTS_REQUIRED, db)
          else if \<not> isRequestApprover db requestId (token_userId actor) \<and>
                  token_role actor \<noteq> RoleAdmin
            then (Failure 403 FORBIDDEN, db)
          else (case rejectTravelRequest now requestId text db of
                  None \<Rightarrow> (Failure 500 SERVER_ERROR, db)
                | Some (None, db') \<Rightarrow> (Failure 400 CANNOT_REJECT, db')
                | Some (Some rejectedRequest, db') \<Rightarrow>
                    (notify sendRejectionNotification db' requestId
                       (Success 200 rejectedRequest), db')))"

definition cancelRequest ::
  "JWTPayload \<Rightarrow> timestamp \<Rightarrow> uuid \<Rightarrow> database \<Rightarrow> TravelRequest response \<times> database" where
  "cancelRequest actor now requestId db =
     (if \<not> isRequestOwner db requestId (token_userId actor) then (Failure 403 FORBIDDEN, db)
      else (case cancelTravelRequest now requestId db of
              (None, db') \<Rightarrow> (Failure 400 CANNOT_CANCEL, db')
            | (Some cancelledRequest, db') \<Rightarrow>
                (notify sendCancellationNotification db' requestId
                   (Success 200 cancelledRequest), db')))"

text \<open>The data of a successful delete is the id that was asked for.\<close>

definition deleteRequest ::
  "JWTPayload \<Rightarrow> uuid \<Rightarrow> database \<Rightarrow> uuid response \<times> database" where
  "deleteRequest actor requestId db =
     (if \<not> isRequestOwner db requestId (token_userId actor) then (Failure 403 FORBIDDEN, db)
      else (case deleteTravelRequest requestId db of
              (False, db') \<Rightarrow> (Failure 400 CANNOT_DELETE, db')
            | (True, db') \<Rightarrow> (Success 200 requestId, db')))"

definition getRequestStats :: "JWTPayload \<Rightarrow> database \<Rightarrow> TravelRequestStats response" where
  "getRequestStats actor db =
     Success 200 (if token_role actor = RoleAdmin then countTravelRequests None db
                  else countTravelRequests (Some (token_userId actor)) db)"


text \<open>The seven operations on requests as one step function, keeping the error kind.\<close>

datatype action =
    Create bool uuid CreateTravelRequestData
  | Update uuid UpdateTravelRequestData
  | Submit uuid
  | Approve uuid "js_string option"
  | Reject uuid "js_string option"
  | Cancel uuid
  | Delete uuid

definition outcome :: "'a response \<times> database \<Rightarrow> error option \<times> database" where
  "outcome x = (case x of (Failure _ e, db) \<Rightarrow> (Some e, db) | (Success _ _, db) \<Rightarrow> (None, db))"

fun perform ::
  "runtime \<Rightarrow> JWTPayload \<Rightarrow> timestamp \<Rightarrow> action \<Rightarrow> database \<Rightarrow> error option \<times> database" where
  "perform rt actor now (Create shouldSubmit newId requestData) db =
     outcome (createRequest rt actor shouldSubmit newId now requestData db)"
| "perform rt actor now (Update requestId updateData) db =
     outcome (updateRequest rt actor now requestId updateData db)"
| "perform rt actor now (Submit requestId) db = outcome (submitRequest actor now requestId db)"
| "perform rt actor now (Approve requestId comments) db =
     outcome (approveRequest actor now requestId comments db)"
| "perform rt actor now (Reject requestId comments) db =
     outcome (rejectRequest actor now requestId comments db)"
| "perform rt actor now (Cancel requestId) db = outcome (cancelRequest actor now requestId db)"
| "perform rt actor now (Delete requestId) db = outcome (deleteRequest actor requestId db)"

text \<open>A history: who did what, and when.\<close>

fun run ::
  "runtime \<Rightarrow> (JWTPayload \<times> timestamp \<times> action) list \<Rightarrow> database \<Rightarrow> database" where
  "run rt [] db = db"
| "run rt ((actor, now, a) # rest) db = run rt rest (snd (perform rt actor now a db))"

section \<open>The authentication and user controllers\<close>

record UserLoginData =
  login_email :: "js_string option"
  login_password :: "js_string option"

text \<open>
  \<open>login\<close>. The token is modelled by the payload it is signed over. The last branch is
  never taken: past the first check both values are defined.
\<close>

definition login ::
  "runtime \<Rightarrow> UserLoginData \<Rightarrow> database \<Rightarrow> (UserResponse \<times> JWTPayload) response" where
  "login rt body db =
     (if \<not> truthy_text (login_email body) \<or> \<not> truthy_text (login_password body)
        then Failure 400 MISSING_FIELDS
      else (case (login_email body, login_password body) of
              (Some e, Some password) \<Rightarrow>
                if \<not> isValidEmail e then Failure 400 INVALID_EMAIL
                else (case findUserByEmail db e of
                        None \<Rightarrow> Failure 500 SERVER_ERROR
                      | Some None \<Rightarrow> Failure 401 INVALID_CREDENTIALS
                      | Some (Some user) \<Rightarrow>
                          if \<not> is_active user then Failure 401 ACCOUNT_DEACTIVATED
                          else if \<not> bcrypt_compare rt password (password_hash user)
                            then Failure 401 INVALID_CREDENTIALS
                          else Success 200
                                 (sanitizeUser user,
                                  \<lparr> token_userId = u_id user, token_email = email user,
                                    token_role = role user \<rparr>))
            | _ \<Rightarrow> Failure 400 MISSING_FIELDS))"

text \<open>
  A caller who is not an admin keeps only \<open>first_name\<close> and \<open>last_name\<close> of the body: the
  other keys are deleted from it. The id in the URL is compared with the token's as a
  text (\<open>isSelf\<close>) and is otherwise a query parameter.
\<close>

definition names_only :: "UserUpdateData \<Rightarrow> UserUpdateData" where
  "names_only updateData =
     updateData\<lparr>set_email := None, set_role := None, set_is_active := None\<rparr>"

definition updateUserById ::
  "JWTPayload \<Rightarrow> timestamp \<Rightarrow> uuid_text \<Rightarrow> UserUpdateData \<Rightarrow> database
     \<Rightarrow> UserResponse response \<times> database" where
  "updateUserById actor now targetId body db =
     (let isAdmin = (token_role actor = RoleAdmin);
          isSelf = same_text targetId (token_userId actor)
      in if \<not> isAdmin \<and> \<not> isSelf then (Failure 403 FORBIDDEN, db)
         else (case findUserById db (uuid_value targetId) of
                 None \<Rightarrow> (Failure 404 USER_NOT_FOUND, db)
               | Some existingUser \<Rightarrow>
                   (let updateData = (if \<not> isAdmin then names_only body else body)
                    in if (case set_email updateData of
                             None \<Rightarrow> False | Some e \<Rightarrow> e \<noteq> [] \<and> \<not> isValidEmail e)
                         then (Failure 400 INVALID_EMAIL, db)
                       else if (case set_email updateData of
                                  None \<Rightarrow> False
                                | Some e \<Rightarrow>
                                    e \<noteq> [] \<and>
                                    emailExists db e (Some (uuid_value targetId)) = None)
                         then (Failure 500 SERVER_ERROR, db)
                       else if (case set_email updateData of
                                  None \<Rightarrow> False
                                | Some e \<Rightarrow>
                                    e \<noteq> [] \<and>
                                    emailExists db e (Some (uuid_value targetId)) = Some True)
                         then (Failure 409 EMAIL_EXISTS, db)
                       else if (case set_role updateData of
                                  None \<Rightarrow> False
                                | Some r \<Rightarrow> r \<noteq> [] \<and> role_of_text r = None)
                         then (Failure 400 INVALID_ROLE, db)
                       else if isAdmin \<and> isSelf \<and> set_is_active updateData = Some False
                         then (Failure 400 CANNOT_DEACTIVATE_SELF, db)
                       else (case updateUser now (uuid_value targetId) updateData db of
                               None \<Rightarrow> (Failure 500 SERVER_ERROR, db)
                             | Some (None, db') \<Rightarrow> (Failure 500 UPDATE_FAILED, db')
                             | Some (Some updatedUser, db') \<Rightarrow>
                                 (Success 200 (sanitizeUser updatedUser), db')))))"


section \<open>Properties: vocabulary\<close>

text \<open>The no-self-approval invariant and the primary key of \<open>travel_requests\<close>.\<close>

definition no_self_approval :: "database \<Rightarrow> bool" where
  "no_self_approval db = list_all (\<lambda>r. user_id r \<noteq> approver_id r) (travel_requests db)"

definition primary_key :: "database \<Rightarrow> bool" where
  "primary_key db = distinct (map tr_id (travel_requests db))"

text \<open>\<open>check_dates\<close>, for every stored row.\<close>

definition dates_in_order :: "database \<Rightarrow> bool" where
  "dates_in_order db = list_all (\<lambda>r. departure_date r \<le> return_date r) (travel_requests db)"

text \<open>Two rows agree on the columns the table's constraints read.\<close>

definition same_constrained_columns :: "TravelRequest \<Rightarrow> TravelRequest \<Rightarrow> bool" where
  "same_constrained_columns x y =
     (user_id x = user_id y \<and> approver_id x = approver_id y \<and>
      departure_date x = departure_date y \<and> return_date x = return_date y \<and>
      estimated_budget x = estimated_budget y)"




text \<open>Comments that are absent, empty, or white space only.\<close>

definition blank_comments :: "js_string option \<Rightarrow> bool" where
  "blank_comments comments = (case comments of None \<Rightarrow> True | Some s \<Rightarrow> list_all isWhiteSpace s)"



text \<open>
  The calendar day a date column has after an update: the stored day when the body leaves
  the field out, the day of a calendar date the body gives.
\<close>

fun resulting_day :: "date_text option \<Rightarrow> int \<Rightarrow> int option" where
  "resulting_day None stored = Some stored"
| "resulting_day (Some (IsoDate n)) stored = Some n"
| "resulting_day (Some _) stored = None"

section \<open>A small database for concrete runs\<close>

definition demo_rt :: runtime where
  "demo_rt = \<lparr> tzOffset = (\<lambda>n. - 18000000),
               bcrypt_compare = (\<lambda>password hash. hash = 36 # password) \<rparr>"

definition alice :: User where
  "alice = \<lparr> u_id = 1, email = utf16 ''alice@corp.io'', first_name = utf16 ''Alice'',
             last_name = utf16 ''A'', role = RoleUser, is_active = True,
             u_created_at = 100, u_updated_at = 100, password_hash = 36 # utf16 ''Secret1'' \<rparr>"

definition bob :: User where
  "bob = \<lparr> u_id = 2, email = utf16 ''bob@corp.io'', first_name = utf16 ''Bob'',
           last_name = utf16 ''B'', role = RoleApprover, is_active = True,
           u_created_at = 100, u_updated_at = 100, password_hash = 36 # utf16 ''Secret2'' \<rparr>"

definition carol :: User where
  "carol = \<lparr> u_id = 3, email = utf16 ''carol@corp.io'', first_name = utf16 ''Carol'',
             last_name = utf16 ''C'', role = RoleAdmin, is_active = True,
             u_created_at = 100, u_updated_at = 100, password_hash = 36 # utf16 ''Secret3'' \<rparr>"

definition dave :: User where
  "dave = \<lparr> u_id = 4, email = utf16 ''dave@corp.io'', first_name = utf16 ''Dave'',
            last_name = utf16 ''D'', role = RoleUser, is_active = False,
            u_created_at = 100, u_updated_at = 100, password_hash = 36 # utf16 ''Secret4'' \<rparr>"

definition token_of :: "User \<Rightarrow> JWTPayload" where
  "token_of u = \<lparr> token_userId = u_id u, token_email = email u, token_role = role u \<rparr>"

text \<open>Alice's trip of 2025-02-15 to 2025-02-20 (days 20134 to 20139), to be decided by Bob.\<close>

definition trip :: TravelRequest where
  "trip = \<lparr> tr_id = 10, user_id = 1, approver_id = 2, destination = utf16 ''Oslo'',
            departure_date = 20134, return_date = 20139, purpose = utf16 ''Audit'',
            estimated_budget = 2500, transportation_mode = None,
            accommodation_details = None, additional_notes = None, status = Draft,
            approval_comments = None, submitted_at = None, approved_rejected_at = None,
            created_at = 200, updated_at = 200 \<rparr>"

definition demo_db :: database where
  "demo_db =
     \<lparr> users = [alice, bob, carol, dave],
       travel_requests =
         [trip,
          trip\<lparr>tr_id := 11, status := Pending, submitted_at := Some 210, updated_at := 210\<rparr>,
          trip\<lparr>tr_id := 12, status := Approved, approval_comments := Some (utf16 ''ok''),
               submitted_at := Some 210, approved_rejected_at := Some 220,
               updated_at := 220\<rparr>] \<rparr>"

definition trip_body :: TravelRequestData where
  "trip_body =
     \<lparr> body_approver_id = Some (UuidText 2 True), body_destination = Some (utf16 ''Oslo''),
       body_departure_date = Some (IsoDate 20134), body_return_date = Some (IsoDate 20139),
       body_purpose = Some (utf16 ''Audit''), body_estimated_budget = Some 2500,
       body_transportation_mode = None, body_accommodation_details = None,
       body_additional_notes = None \<rparr>"

definition empty_body :: TravelRequestData where
  "empty_body =
     \<lparr> body_approver_id = None, body_destination = None, body_departure_date = None,
       body_return_date = None, body_purpose = None, body_estimated_budget = None,
       body_transportation_mode = None, body_accommodation_details = None,
       body_additional_notes = None \<rparr>"

definition empty_user_update :: UserUpdateData where
  "empty_user_update =
     \<lparr> set_email = None, set_first_name = None, set_last_name = None, set_role = None,
       set_is_active = None \<rparr>"

section \<open>Statistics\<close>

lemma length_by_status:
  "length rows =
     length (filter (\<lambda>r. status r = Draft) rows) +
     length (filter (\<lambda>r. status r = Pending) rows) +
     length (filter (\<lambda>r. status r = Approved) rows) +
     length (filter (\<lambda>r. status r = Rejected) rows) +
     length (filter (\<lambda>r. status r = Cancelled) rows)"
proof (induction rows)
  case Nil
  show ?case by simp
next
  case (Cons r rows)
  then show ?case by (cases "status r") simp_all
qed

text \<open>
  C10. Whatever the table holds and whether or not the count is restricted to one user,
  the total of the statistics is the sum of the five counts by status.
\<close>

theorem stats_total_is_sum:
  "total (countTravelRequests userId db) =
     draft (countTravelRequests userId db) + pending (countTravelRequests userId db) +
     approved (countTravelRequests userId db) + rejected (countTravelRequests userId db) +
     cancelled (countTravelRequests userId db)"
  unfolding countTravelRequests_def Let_def
  using length_by_status by simp

section \<open>Rejecting without comments\<close>

lemma trim_blank: "list_all isWhiteSpace s \<Longrightarrow> trim s = []"
proof -
  assume "list_all isWhiteSpace s"
  then have nothing_left: "dropWhile isWhiteSpace s = []"
    by (simp add: list_all_iff)
  show ?thesis
    unfolding trim_def nothing_left by simp
qed

lemma rejectRequest_absent:
  "rejectRequest actor now requestId None db = (Failure 400 COMMENTS_REQUIRED, db)"
  by (simp add: rejectRequest_def)

lemma rejectRequest_white:
  "list_all isWhiteSpace t \<Longrightarrow>
     rejectRequest actor now requestId (Some t) db = (Failure 400 COMMENTS_REQUIRED, db)"
  by (simp add: rejectRequest_def trim_blank)

text \<open>
  C6. A reject call whose comments are absent, empty or white space only is answered
  with 400 COMMENTS_REQUIRED whoever calls and whatever the request is, and the database
  is left as it was.
\<close>

theorem reject_blank_comments:
  "blank_comments comments \<Longrightarrow>
     rejectRequest actor now requestId comments db = (Failure 400 COMMENTS_REQUIRED, db)"
proof (cases comments)
  case None
  then show ?thesis by (simp add: rejectRequest_absent)
next
  case (Some t)
  assume "blank_comments comments"
  with Some have "list_all isWhiteSpace t" by (simp add: blank_comments_def)
  with Some show ?thesis by (simp add: rejectRequest_white)
qed

theorem reject_blank_comments_witness:
  "blank_comments (Some [32, 9]) \<and>
   rejectRequest (token_of carol) 300 11 (Some [32, 9]) demo_db =
     (Failure 400 COMMENTS_REQUIRED, demo_db) \<and>
   map_option status (findTravelRequestById demo_db 11) = Some Pending"
  using reject_blank_comments [of "Some [32, 9]" "token_of carol" 300 11 demo_db]
  by (simp add: blank_comments_def isWhiteSpace_def findTravelRequestById_def demo_db_def
      trip_def)

section \<open>Creating a request\<close>

text \<open>
  C1. The checks of a create call run in the order required fields, date range, budget,
  self-approval, approver, and the first that fails answers; a budget that is present
  but not positive should then be answered INVALID_BUDGET. The code misses this at 0: the
  required-field loop tests truthiness, so with every other field in order a create call
  with \<open>estimated_budget = 0\<close> is answered 400 MISSING_FIELD, while the same budget in
  an update of a draft is answered 400 INVALID_BUDGET.
\<close>

theorem create_zero_budget_reported_missing:
  "createRequest demo_rt (token_of alice) False 13 300
     (trip_body\<lparr>body_estimated_budget := Some 0\<rparr>) demo_db = (Failure 400 MISSING_FIELD, demo_db) \<and>
   fst (updateRequest demo_rt (token_of alice) 300 10
     (empty_body\<lparr>body_estimated_budget := Some 0\<rparr>) demo_db) = Failure 400 INVALID_BUDGET"
  by (simp add: createRequest_def updateRequest_def requiredFields_def field_truthy_def truthy_id_def
      truthy_text_def truthy_date_def truthy_number_def trip_body_def empty_body_def utf16_def
      findTravelRequestById_def demo_db_def trip_def token_of_def alice_def date_or_def)

section \<open>Login\<close>

text \<open>
  C4. Login should not tell a registered e-mail from an unregistered one, and the handler
  says so where it answers an unknown e-mail. It does tell them apart when the account is
  deactivated: with the same wrong password an unregistered e-mail and the e-mail of an
  active account are answered INVALID_CREDENTIALS, the e-mail of a deactivated account
  is answered ACCOUNT_DEACTIVATED.
\<close>

theorem login_reveals_deactivated_account:
  "findUserByEmail (demo_db\<lparr>users := [alice, bob, carol]\<rparr>) (utf16 ''dave@corp.io'') = Some None \<and>
   findUserByEmail demo_db (utf16 ''dave@corp.io'') = Some (Some dave) \<and>
   \<not> bcrypt_compare demo_rt (utf16 ''guess'') (password_hash dave) \<and>
   \<not> bcrypt_compare demo_rt (utf16 ''guess'') (password_hash alice) \<and>
   login demo_rt \<lparr>login_email = Some (utf16 ''dave@corp.io''), login_password = Some (utf16 ''guess'')\<rparr>
     (demo_db\<lparr>users := [alice, bob, carol]\<rparr>) = Failure 401 INVALID_CREDENTIALS \<and>
   login demo_rt \<lparr>login_email = Some (utf16 ''alice@corp.io''), login_password = Some (utf16 ''guess'')\<rparr>
     demo_db = Failure 401 INVALID_CREDENTIALS \<and>
   login demo_rt \<lparr>login_email = Some (utf16 ''dave@corp.io''), login_password = Some (utf16 ''guess'')\<rparr>
     demo_db = Failure 401 ACCOUNT_DEACTIVATED"
  by (simp add: login_def findUserByEmail_def pg_text_def single_def highSurrogate_def
      lowSurrogate_def demo_db_def alice_def bob_def carol_def dave_def demo_rt_def utf16_def
      truthy_text_def isValidEmail_def emailChar_def isWhiteSpace_def)

text \<open>
  So the answer for one e-mail and one wrong password changes with the account being
  registered.
\<close>

theorem login_reveals_deactivated_account_witness:
  "login demo_rt \<lparr>login_email = Some (utf16 ''dave@corp.io''), login_password = Some (utf16 ''guess'')\<rparr>
     demo_db \<noteq>
   login demo_rt \<lparr>login_email = Some (utf16 ''dave@corp.io''), login_password = Some (utf16 ''guess'')\<rparr>
     (demo_db\<lparr>users := [alice, bob, carol]\<rparr>)"
  using login_reveals_deactivated_account by simp

text \<open>
  For an active account nothing is revealed: whatever the e-mail and the password, the
  answer where the e-mail is not registered is the answer where it belongs to an active
  account whose password does not match.
\<close>

lemma login_hides_active_account:
  assumes "findUserByEmail db e = Some None"
    and "findUserByEmail db' e = Some (Some u)"
    and "is_active u"
    and "login_email body = Some e"
    and "case login_password body of None \<Rightarrow> True
         | Some password \<Rightarrow> \<not> bcrypt_compare rt password (password_hash u)"
  shows "login rt body db = login rt body db'"
  using assms by (simp add: login_def split: option.splits)

section \<open>Updating a user\<close>










text \<open>
  The guard compares texts: an admin who addresses their own record by another spelling
  of the id is not taken for the caller, and the update is applied.
\<close>

lemma deactivation_guard_compares_texts:
  "updateUserById (token_of carol) 300 (UuidText 3 False)
     (empty_user_update\<lparr>set_is_active := Some False\<rparr>) demo_db =
   (Success 200 (sanitizeUser (carol\<lparr>is_active := False, u_updated_at := 300\<rparr>)),
    demo_db\<lparr>users := [alice, bob, carol\<lparr>is_active := False, u_updated_at := 300\<rparr>, dave]\<rparr>)"
  by (simp add: updateUserById_def updateUser_def no_user_fields_def
      empty_user_update_def findUserById_def converted_def assign_def sanitizeUser_def
      token_of_def demo_db_def alice_def bob_def carol_def dave_def)

section \<open>Submitting a draft\<close>

lemma first_hit_changed:
  assumes "find (\<lambda>x. tr_id x = i) rows = Some r" and "status r = s"
  shows "(case map change (filter (\<lambda>x. tr_id x = i \<and> status x = s) rows) of
            [] \<Rightarrow> None | x # _ \<Rightarrow> Some x) = Some (change r)"
  using assms by (induction rows) (auto split: if_splits)

lemma find_after_change:
  assumes "find (\<lambda>x. tr_id x = i) rows = Some r" and "status r = s"
    and "\<And>x. tr_id (change x) = tr_id x"
  shows "find (\<lambda>x. tr_id x = i)
           (map (\<lambda>x. if tr_id x = i \<and> status x = s then change x else x) rows) = Some (change r)"
  using assms by (induction rows) (auto split: if_splits)

lemma no_hit_after_change:
  assumes "\<And>x. tr_id (change x) = tr_id x" and "\<And>x. status (change x) \<noteq> s"
  shows "filter (\<lambda>x. tr_id x = i \<and> status x = s)
           (map (\<lambda>x. if tr_id x = i \<and> status x = s then change x else x) rows) = []"
  using assms by (induction rows) auto

lemma no_hit_no_change:
  "filter hit rows = [] \<Longrightarrow> map (\<lambda>x. if hit x then change x else x) rows = rows"
  by (induction rows) (auto split: if_splits)

lemma update_where_status_miss:
  "filter (\<lambda>x. tr_id x = i \<and> status x = s) (travel_requests db) = [] \<Longrightarrow>
     update_where_status i s change db = (None, db)"
  by (simp add: update_where_status_def no_hit_no_change)

lemma owner_row_found:
  "find (\<lambda>x. tr_id x = i) rows = Some r \<Longrightarrow> user_id r = u \<Longrightarrow>
     0 < length (filter (\<lambda>x. tr_id x = i \<and> user_id x = u) rows)"
  by (induction rows) (auto split: if_splits)

lemma owner_of_found:
  "findTravelRequestById db i = Some r \<Longrightarrow> user_id r = u \<Longrightarrow> isRequestOwner db i u"
  unfolding findTravelRequestById_def isRequestOwner_def by (rule owner_row_found)

text \<open>The submission mail raises whenever it is built.\<close>

lemma notify_submission:
  "notify sendSubmissionNotification db requestId ok =
     (if findTravelRequestWithUsers db requestId = None then ok else Failure 500 SERVER_ERROR)"
  by (simp add: notify_def sendSubmissionNotification_def decimal_column_def
      split: option.splits)

text \<open>
  C7. When its owner submits a draft, the stored request becomes pending with
  \<open>submitted_at\<close> set to the time of the call. A second submit by the same caller, at any
  later time, is answered 400 CANNOT_SUBMIT and changes nothing, so the request stays
  pending with the \<open>submitted_at\<close> of the first call. The first call itself is answered
  500 SERVER_ERROR once the row is written, because the submission mail raises, unless
  the requester or the approver is missing from \<open>users\<close> and no mail is built.
\<close>

theorem submit_once:
  assumes "findTravelRequestById db requestId = Some r"
    and "status r = Draft"
    and "user_id r = token_userId actor"
  shows "findTravelRequestById (snd (submitRequest actor now requestId db)) requestId =
           Some (r\<lparr>status := Pending, submitted_at := Some now, updated_at := now\<rparr>) \<and>
         fst (submitRequest actor now requestId db) =
           (if findUserById db (user_id r) \<noteq> None \<and> findUserById db (approver_id r) \<noteq> None
            then Failure 500 SERVER_ERROR
            else Success 200 (r\<lparr>status := Pending, submitted_at := Some now, updated_at := now\<rparr>)) \<and>
         submitRequest actor later requestId (snd (submitRequest actor now requestId db)) =
           (Failure 400 CANNOT_SUBMIT, snd (submitRequest actor now requestId db))"
proof -
  let ?change = "\<lambda>x. x\<lparr>status := Pending, submitted_at := Some now, updated_at := now\<rparr>"
  let ?rows' = "map (\<lambda>x. if tr_id x = requestId \<and> status x = Draft then ?change x else x)
                  (travel_requests db)"
  let ?db' = "db\<lparr>travel_requests := ?rows'\<rparr>"
  from assms have found: "find (\<lambda>x. tr_id x = requestId) (travel_requests db) = Some r"
    by (simp add: findTravelRequestById_def)
  have owner: "isRequestOwner db requestId (token_userId actor)"
    using assms(1,3) by (rule owner_of_found)
  have first: "submitDraftRequest now requestId db = (Some (?change r), ?db')"
    using first_hit_changed [OF found assms(2), of ?change]
    by (simp add: submitDraftRequest_def update_where_status_def)
  have once: "submitRequest actor now requestId db =
      (notify sendSubmissionNotification ?db' requestId (Success 200 (?change r)), ?db')"
    using owner first by (simp add: submitRequest_def)
  have keep_id: "tr_id (?change x) = tr_id x" for x
    by simp
  have not_draft: "status (?change x) \<noteq> Draft" for x
    by simp
  have found': "find (\<lambda>x. tr_id x = requestId) ?rows' = Some (?change r)"
    using found assms(2) keep_id by (rule find_after_change [where change = ?change])
  have found_db': "findTravelRequestById ?db' requestId = Some (?change r)"
    using found' by (simp add: findTravelRequestById_def)
  have parties: "findTravelRequestWithUsers ?db' requestId = None \<longleftrightarrow>
      \<not> (findUserById db (user_id r) \<noteq> None \<and> findUserById db (approver_id r) \<noteq> None)"
    unfolding findTravelRequestWithUsers_def found_db'
    by (simp add: findUserById_def split: option.splits)
  have answer: "fst (submitRequest actor now requestId db) =
      (if findUserById db (user_id r) \<noteq> None \<and> findUserById db (approver_id r) \<noteq> None
       then Failure 500 SERVER_ERROR else Success 200 (?change r))"
    unfolding once notify_submission using parties by auto
  have owner': "isRequestOwner ?db' requestId (token_userId actor)"
    using found_db' by (rule owner_of_found) (simp add: assms(3))
  have none_left: "filter (\<lambda>x. tr_id x = requestId \<and> status x = Draft) (travel_requests ?db') = []"
    using no_hit_after_change [where change = ?change, OF keep_id not_draft] by simp
  have again: "submitRequest actor later requestId ?db' = (Failure 400 CANNOT_SUBMIT, ?db')"
    using owner' update_where_status_miss [OF none_left]
    by (simp add: submitRequest_def submitDraftRequest_def)
  have after: "snd (submitRequest actor now requestId db) = ?db'"
    unfolding once by simp
  show ?thesis
    unfolding after using answer found_db' again by simp
qed

theorem submit_once_witness:
  "findTravelRequestById demo_db 10 = Some trip \<and> status trip = Draft \<and>
   user_id trip = token_userId (token_of alice) \<and>
   fst (submitRequest (token_of alice) 300 10 demo_db) = Failure 500 SERVER_ERROR \<and>
   findTravelRequestById (snd (submitRequest (token_of alice) 300 10 demo_db)) 10 =
     Some (trip\<lparr>status := Pending, submitted_at := Some 300, updated_at := 300\<rparr>) \<and>
   fst (submitRequest (token_of alice) 400 10 (snd (submitRequest (token_of alice) 300 10 demo_db))) =
     Failure 400 CANNOT_SUBMIT \<and>
   map_option submitted_at (findTravelRequestById
       (snd (submitRequest (token_of alice) 400 10 (snd (submitRequest (token_of alice) 300 10 demo_db)))) 10) =
     Some (Some 300)"
  using submit_once [of demo_db 10 trip "token_of alice" 300 400]
  by (simp add: findTravelRequestById_def findUserById_def demo_db_def trip_def token_of_def
      alice_def bob_def)

section \<open>Deleting a request\<close>

lemma pk_rows_with_id:
  "distinct (map tr_id rows) \<Longrightarrow> find (\<lambda>x. tr_id x = i) rows = Some r \<Longrightarrow>
     filter (\<lambda>x. tr_id x = i) rows = [r]"
proof (induction rows)
  case Nil
  then show ?case by simp
next
  case (Cons h rows)
  show ?case
  proof (cases "tr_id h = i")
    case True
    with Cons.prems have "h = r" and "i \<notin> tr_id ` set rows" by auto
    then have "filter (\<lambda>x. tr_id x = i) rows = []"
      by (auto simp: filter_empty_conv)
    with True \<open>h = r\<close> show ?thesis by simp
  next
    case False
    with Cons show ?thesis by simp
  qed
qed

lemma pk_hits:
  assumes "primary_key db" and "findTravelRequestById db i = Some r"
  shows "filter (\<lambda>x. tr_id x = i \<and> status x = s) (travel_requests db) =
           (if status r = s then [r] else [])"
proof -
  have "filter (\<lambda>x. tr_id x = i) (travel_requests db) = [r]"
    using assms by (simp add: primary_key_def findTravelRequestById_def pk_rows_with_id)
  moreover have "filter (\<lambda>x. tr_id x = i \<and> status x = s) (travel_requests db) =
      filter (\<lambda>x. status x = s) (filter (\<lambda>x. tr_id x = i) (travel_requests db))"
    by (simp add: conj_commute)
  ultimately show ?thesis by simp
qed

lemma pk_gone:
  assumes "primary_key db" and "findTravelRequestById db i = Some r" and "status r = s"
  shows "find (\<lambda>x. tr_id x = i)
           (filter (\<lambda>x. \<not> (tr_id x = i \<and> status x = s)) (travel_requests db)) = None"
proof -
  have only: "filter (\<lambda>x. tr_id x = i) (travel_requests db) = [r]"
    using assms by (simp add: primary_key_def findTravelRequestById_def pk_rows_with_id)
  have "x = r" if "x \<in> set (travel_requests db)" and "tr_id x = i" for x
  proof -
    from that have "x \<in> set (filter (\<lambda>x. tr_id x = i) (travel_requests db))" by simp
    with only show ?thesis by simp
  qed
  with assms(3) show ?thesis
    by (auto simp: find_None_iff)
qed

text \<open>
  C9. For the owner of a stored request: if the request is a draft, delete answers 200
  and the request can no longer be found by its id; in any other status delete answers
  400 CANNOT_DELETE and the database, the request included, is unchanged.
\<close>

theorem delete_only_drafts:
  assumes "primary_key db"
    and "findTravelRequestById db requestId = Some r"
    and "user_id r = token_userId actor"
  shows "(status r = Draft \<longrightarrow>
            fst (deleteRequest actor requestId db) = Success 200 requestId \<and>
            findTravelRequestById (snd (deleteRequest actor requestId db)) requestId = None) \<and>
         (status r \<noteq> Draft \<longrightarrow>
            deleteRequest actor requestId db = (Failure 400 CANNOT_DELETE, db))"
proof -
  have owner: "isRequestOwner db requestId (token_userId actor)"
    using assms(2,3) by (rule owner_of_found)
  note hits = pk_hits [OF assms(1,2), of Draft]
  show ?thesis
  proof (intro conjI impI)
    assume d: "status r = Draft"
    with owner hits show "fst (deleteRequest actor requestId db) = Success 200 requestId"
      by (simp add: deleteRequest_def deleteTravelRequest_def)
    from d owner hits pk_gone [OF assms(1,2) d]
    show "findTravelRequestById (snd (deleteRequest actor requestId db)) requestId = None"
      by (simp add: deleteRequest_def deleteTravelRequest_def findTravelRequestById_def)
  next
    assume "status r \<noteq> Draft"
    with hits have none: "filter (\<lambda>x. tr_id x = requestId \<and> status x = Draft) (travel_requests db) = []"
      by simp
    then have "filter (\<lambda>x. \<not> (tr_id x = requestId \<and> status x = Draft)) (travel_requests db) =
        travel_requests db"
      by (simp add: filter_empty_conv)
    with owner none show "deleteRequest actor requestId db = (Failure 400 CANNOT_DELETE, db)"
      by (simp add: deleteRequest_def deleteTravelRequest_def)
  qed
qed

theorem delete_only_drafts_witness:
  "primary_key demo_db \<and>
   findTravelRequestById demo_db 10 = Some trip \<and> user_id trip = token_userId (token_of alice) \<and>
   status trip = Draft \<and>
   fst (deleteRequest (token_of alice) 10 demo_db) = Success 200 10 \<and>
   findTravelRequestById (snd (deleteRequest (token_of alice) 10 demo_db)) 10 = None \<and>
   deleteRequest (token_of alice) 11 demo_db = (Failure 400 CANNOT_DELETE, demo_db) \<and>
   map_option status (findTravelRequestById demo_db 11) = Some Pending"
  using delete_only_drafts [of demo_db 10 trip "token_of alice"]
    delete_only_drafts [of demo_db 11
      "trip\<lparr>tr_id := 11, status := Pending, submitted_at := Some 210, updated_at := 210\<rparr>"
      "token_of alice"]
  by (simp add: primary_key_def findTravelRequestById_def demo_db_def trip_def token_of_def alice_def)

section \<open>Updating the dates of a draft\<close>

lemma earlier_day:
  assumes "e < (d::int)" and "\<bar>z\<bar> < msPerDay"
  shows "e * msPerDay - z < d * msPerDay" and "e * msPerDay < d * msPerDay - z"
    and "e * msPerDay < d * msPerDay"
proof -
  have pos: "0 < msPerDay" by (simp add: msPerDay_def)
  from assms(1) have "e + 1 \<le> d" by simp
  then have "(e + 1) * msPerDay \<le> d * msPerDay"
    using pos by (simp add: mult_right_mono)
  then have step: "e * msPerDay + msPerDay \<le> d * msPerDay"
    by (simp add: algebra_simps)
  from step assms(2) show "e * msPerDay - z < d * msPerDay" by linarith
  from step assms(2) show "e * msPerDay < d * msPerDay - z" by linarith
  from step pos show "e * msPerDay < d * msPerDay" by linarith
qed

text \<open>
  C8. Take a stored draft whose dates satisfy \<open>check_dates\<close>, an update by its owner whose
  date fields are calendar dates or left out, and a local time less than a day away from
  UTC. If the return day that would result is earlier than the departure day that would
  result, the update is answered 400 INVALID_DATE_RANGE and the database, the stored dates
  included, is unchanged.
\<close>

theorem update_rejects_inverted_dates:
  assumes "findTravelRequestById db requestId = Some r"
    and "user_id r = token_userId actor"
    and "status r = Draft"
    and "departure_date r \<le> return_date r"
    and "\<forall>n. \<bar>tzOffset rt n\<bar> < msPerDay"
    and "resulting_day (body_departure_date updateData) (departure_date r) = Some d"
    and "resulting_day (body_return_date updateData) (return_date r) = Some e"
    and "e < d"
  shows "updateRequest rt actor now requestId updateData db = (Failure 400 INVALID_DATE_RANGE, db)"
proof -
  have zone: "\<bar>tzOffset rt n\<bar> < msPerDay" for n
    using assms(5) by simp
  have touched: "truthy_date (body_departure_date updateData) \<or>
                 truthy_date (body_return_date updateData)"
    using assms(4,6,7,8)
    by (cases "body_departure_date updateData"; cases "body_return_date updateData")
       (auto simp: truthy_date_def elim: resulting_day.elims)
  have invalid: "\<not> isValidDateRange rt
      (date_or (body_departure_date updateData) (DateToString (departure_date r)))
      (date_or (body_return_date updateData) (DateToString (return_date r)))"
  proof (cases "body_departure_date updateData")
    case None
    note dep = None
    with assms(6) have d: "d = departure_date r" by simp
    show ?thesis
    proof (cases "body_return_date updateData")
      case None
      with assms(7) have "e = return_date r" by simp
      with d assms(4,8) show ?thesis by simp
    next
      case (Some t)
      with assms(7) have t: "t = IsoDate e" by (auto elim: resulting_day.elims)
      from earlier_day(2) [OF assms(8) zone [of d]] dep Some t d show ?thesis
        by (simp add: isValidDateRange_def date_or_def)
    qed
  next
    case (Some t)
    with assms(6) have t: "t = IsoDate d" by (auto elim: resulting_day.elims)
    note dep = Some
    show ?thesis
    proof (cases "body_return_date updateData")
      case None
      with assms(7) have e: "e = return_date r" by simp
      from earlier_day(1) [OF assms(8) zone [of e]] dep None t e show ?thesis
        by (simp add: isValidDateRange_def date_or_def)
    next
      case (Some t')
      with assms(7) have t': "t' = IsoDate e" by (auto elim: resulting_day.elims)
      from earlier_day(3) [OF assms(8) zone [of e]] dep Some t t' show ?thesis
        by (simp add: isValidDateRange_def date_or_def)
    qed
  qed
  from assms(1,2,3) touched invalid show ?thesis
    by (simp add: updateRequest_def)
qed

theorem update_rejects_inverted_dates_witness:
  "findTravelRequestById demo_db 10 = Some trip \<and> user_id trip = token_userId (token_of alice) \<and>
   status trip = Draft \<and> departure_date trip \<le> return_date trip \<and>
   (\<forall>n. \<bar>tzOffset demo_rt n\<bar> < msPerDay) \<and>
   resulting_day (body_departure_date (empty_body\<lparr>body_return_date := Some (IsoDate 20130)\<rparr>))
     (departure_date trip) = Some 20134 \<and>
   resulting_day (body_return_date (empty_body\<lparr>body_return_date := Some (IsoDate 20130)\<rparr>))
     (return_date trip) = Some 20130 \<and>
   updateRequest demo_rt (token_of alice) 300 10
     (empty_body\<lparr>body_return_date := Some (IsoDate 20130)\<rparr>) demo_db =
     (Failure 400 INVALID_DATE_RANGE, demo_db) \<and>
   map_option return_date (findTravelRequestById demo_db 10) = Some 20139"
  using update_rejects_inverted_dates [of demo_db 10 trip "token_of alice" demo_rt
      "empty_body\<lparr>body_return_date := Some (IsoDate 20130)\<rparr>" 20134 20130 300]
  by (simp add: findTravelRequestById_def demo_db_def trip_def token_of_def alice_def
      demo_rt_def msPerDay_def empty_body_def)

section \<open>What every history keeps\<close>

text \<open>
  A property of rows that the table's constraints imply, and that reads only the columns
  the constraints read, holds for every stored row after a call if it held before: an
  insert or a field update that would break a constraint raises, the status changes leave
  those columns alone, and a delete only removes rows.
\<close>

lemma changed_rows_keep:
  assumes "list_all P rows"
    and "list_all Q (map change (filter hit rows))"
    and "\<And>x. Q x \<Longrightarrow> P x"
  shows "list_all P (map (\<lambda>x. if hit x then change x else x) rows)"
  using assms(1,2) by (induction rows) (auto intro: assms(3))

lemma kept_rows_keep:
  assumes "list_all P rows"
    and "\<And>x. P x \<Longrightarrow> P (change x)"
  shows "list_all P (map (\<lambda>x. if hit x then change x else x) rows)"
  using assms(1) by (induction rows) (simp_all add: assms(2))

lemma update_where_status_keeps:
  assumes "list_all P (travel_requests db)"
    and "\<forall>x y. same_constrained_columns x y \<longrightarrow> P x \<longrightarrow> P y"
    and "\<And>x. same_constrained_columns x (change x)"
  shows "list_all P (travel_requests (snd (update_where_status i s change db)))"
proof -
  have "P (change x)" if "P x" for x
    using assms(2,3) that by blast
  with assms(1)
  have "list_all P
          (map (\<lambda>x. if tr_id x = i \<and> status x = s then change x else x) (travel_requests db))"
    by (rule kept_rows_keep)
  then show ?thesis
    by (simp add: update_where_status_def)
qed

lemma createTravelRequest_keeps:
  assumes "list_all P (travel_requests db)"
    and "\<forall>x. row_ok db x \<longrightarrow> P x"
    and "createTravelRequest newId now userId requestData isDraft db = Some (row, db')"
  shows "list_all P (travel_requests db')"
proof -
  from assms(3) have "row_ok db row" and "travel_requests db' = travel_requests db @ [row]"
    by (auto simp: createTravelRequest_def Let_def split: Option.bind_splits if_splits)
  with assms(1,2) show ?thesis by simp
qed

lemma updateTravelRequest_keeps:
  assumes "list_all P (travel_requests db)"
    and "\<forall>x. row_ok db x \<longrightarrow> P x"
    and "updateTravelRequest now requestId updateData db = Some (res, db')"
  shows "list_all P (travel_requests db')"
proof (cases "no_fields updateData")
  case True
  with assms show ?thesis by (simp add: updateTravelRequest_def)
next
  case False
  with assms(3) obtain hit change where
    checked: "list_all (row_ok db) (map change (filter hit (travel_requests db)))" and
    rows: "travel_requests db' = map (\<lambda>x. if hit x then change x else x) (travel_requests db)"
    by (auto simp: updateTravelRequest_def Let_def split: Option.bind_splits if_splits)
  from assms(2) have "P x" if "row_ok db x" for x
    using that by simp
  with assms(1) checked
  have "list_all P (map (\<lambda>x. if hit x then change x else x) (travel_requests db))"
    by (rule changed_rows_keep)
  with rows show ?thesis by simp
qed

lemma deleteTravelRequest_keeps:
  "list_all P (travel_requests db) \<Longrightarrow>
     list_all P (travel_requests (snd (deleteTravelRequest requestId db)))"
  by (simp add: deleteTravelRequest_def list_all_iff)

lemma snd_outcome: "snd (outcome x) = snd x"
  by (cases x) (auto simp: outcome_def split: response.splits)

lemma createRequest_keeps:
  assumes "list_all P (travel_requests db)" and "\<forall>x. row_ok db x \<longrightarrow> P x"
  shows "list_all P
           (travel_requests (snd (createRequest rt actor shouldSubmit newId now requestData db)))"
proof (cases "createTravelRequest newId now (token_userId actor) requestData (\<not> shouldSubmit) db")
  case None
  with assms(1) show ?thesis
    by (simp add: createRequest_def split: option.splits)
next
  case (Some p)
  obtain row db' where p: "p = (row, db')" by (cases p)
  from assms Some [unfolded p] have "list_all P (travel_requests db')"
    by (rule createTravelRequest_keeps)
  with assms(1) Some p show ?thesis
    by (simp add: createRequest_def split: option.splits)
qed

lemma updateRequest_keeps:
  assumes "list_all P (travel_requests db)" and "\<forall>x. row_ok db x \<longrightarrow> P x"
  shows "list_all P (travel_requests (snd (updateRequest rt actor now requestId updateData db)))"
proof (cases "updateTravelRequest now requestId updateData db")
  case None
  with assms(1) show ?thesis
    by (simp add: updateRequest_def split: option.splits)
next
  case (Some p)
  obtain res db' where p: "p = (res, db')" by (cases p)
  from assms Some [unfolded p] have "list_all P (travel_requests db')"
    by (rule updateTravelRequest_keeps)
  with assms(1) Some p show ?thesis
    by (simp add: updateRequest_def split: option.splits)
qed

lemma status_changes_keep:
  assumes "list_all P (travel_requests db)"
    and "\<forall>x y. same_constrained_columns x y \<longrightarrow> P x \<longrightarrow> P y"
  shows "list_all P (travel_requests (snd (submitRequest actor now requestId db)))"
    and "list_all P (travel_requests (snd (approveRequest actor now requestId comments db)))"
    and "list_all P (travel_requests (snd (rejectRequest actor now requestId comments db)))"
    and "list_all P (travel_requests (snd (cancelRequest actor now requestId db)))"
proof -
  have "list_all P (travel_requests (snd (submitDraftRequest now requestId db)))"
    unfolding submitDraftRequest_def
    by (rule update_where_status_keeps [OF assms]) (simp add: same_constrained_columns_def)
  with assms(1) show "list_all P (travel_requests (snd (submitRequest actor now requestId db)))"
    by (auto simp: submitRequest_def split: prod.splits option.splits)
  show "list_all P (travel_requests (snd (approveRequest actor now requestId comments db)))"
  proof (cases "approveTravelRequest now requestId comments db")
    case None
    with assms(1) show ?thesis by (simp add: approveRequest_def)
  next
    case (Some p)
    then obtain stored where p: "p = update_where_status requestId Pending
        (\<lambda>r. r\<lparr>status := Approved, approval_comments := stored,
                approved_rejected_at := Some now, updated_at := now\<rparr>) db"
      by (auto simp: approveTravelRequest_def split: Option.bind_splits)
    have "list_all P (travel_requests (snd p))"
      unfolding p
      by (rule update_where_status_keeps [OF assms]) (simp add: same_constrained_columns_def)
    with assms(1) Some show ?thesis
      by (auto simp: approveRequest_def split: prod.splits option.splits)
  qed
  show "list_all P (travel_requests (snd (rejectRequest actor now requestId comments db)))"
  proof (cases comments)
    case None
    with assms(1) show ?thesis by (simp add: rejectRequest_def)
  next
    case (Some t)
    note comments = Some
    show ?thesis
    proof (cases "rejectTravelRequest now requestId t db")
      case None
      with assms(1) comments show ?thesis by (simp add: rejectRequest_def)
    next
      case (Some p)
      then obtain stored where p: "p = update_where_status requestId Pending
          (\<lambda>r. r\<lparr>status := Rejected, approval_comments := Some stored,
                  approved_rejected_at := Some now, updated_at := now\<rparr>) db"
        by (auto simp: rejectTravelRequest_def split: Option.bind_splits)
      have "list_all P (travel_requests (snd p))"
        unfolding p
        by (rule update_where_status_keeps [OF assms]) (simp add: same_constrained_columns_def)
      with assms(1) comments Some show ?thesis
        by (auto simp: rejectRequest_def split: prod.splits option.splits)
    qed
  qed
  have "list_all P (travel_requests (snd (cancelTravelRequest now requestId db)))"
    unfolding cancelTravelRequest_def
    by (rule update_where_status_keeps [OF assms]) (simp add: same_constrained_columns_def)
  with assms(1) show "list_all P (travel_requests (snd (cancelRequest actor now requestId db)))"
    by (auto simp: cancelRequest_def split: prod.splits option.splits)
qed

lemma deleteRequest_keeps:
  assumes "list_all P (travel_requests db)"
  shows "list_all P (travel_requests (snd (deleteRequest actor requestId db)))"
  using assms deleteTravelRequest_keeps [OF assms, of requestId]
  by (auto simp: deleteRequest_def split: prod.splits bool.splits)

lemma perform_keeps:
  assumes "list_all P (travel_requests db)"
    and "\<forall>db x. row_ok db x \<longrightarrow> P x"
    and "\<forall>x y. same_constrained_columns x y \<longrightarrow> P x \<longrightarrow> P y"
  shows "list_all P (travel_requests (snd (perform rt actor now a db)))"
proof (cases a)
  case (Create shouldSubmit newId requestData)
  from assms(2) have "\<forall>x. row_ok db x \<longrightarrow> P x" by simp
  with assms(1) show ?thesis
    unfolding Create perform.simps snd_outcome by (rule createRequest_keeps)
next
  case (Update requestId updateData)
  from assms(2) have "\<forall>x. row_ok db x \<longrightarrow> P x" by simp
  with assms(1) show ?thesis
    unfolding Update perform.simps snd_outcome by (rule updateRequest_keeps)
next
  case (Submit requestId)
  from assms(1,3) show ?thesis
    unfolding Submit perform.simps snd_outcome by (rule status_changes_keep(1))
next
  case (Approve requestId comments)
  from assms(1,3) show ?thesis
    unfolding Approve perform.simps snd_outcome by (rule status_changes_keep(2))
next
  case (Reject requestId comments)
  from assms(1,3) show ?thesis
    unfolding Reject perform.simps snd_outcome by (rule status_changes_keep(3))
next
  case (Cancel requestId)
  from assms(1,3) show ?thesis
    unfolding Cancel perform.simps snd_outcome by (rule status_changes_keep(4))
next
  case (Delete requestId)
  from assms(1) show ?thesis
    unfolding Delete perform.simps snd_outcome by (rule deleteRequest_keeps)
qed

lemma run_keeps:
  assumes "list_all P (travel_requests db)"
    and "\<forall>db x. row_ok db x \<longrightarrow> P x"
    and "\<forall>x y. same_constrained_columns x y \<longrightarrow> P x \<longrightarrow> P y"
  shows "list_all P (travel_requests (run rt history db))"
  using assms(1)
proof (induction history arbitrary: db)
  case Nil
  then show ?case by simp
next
  case (Cons step history)
  obtain actor now a where step: "step = (actor, now, a)" by (cases step)
  from Cons.prems assms(2,3)
  have "list_all P (travel_requests (snd (perform rt actor now a db)))"
    by (rule perform_keeps)
  then have "list_all P (travel_requests (run rt history (snd (perform rt actor now a db))))"
    by (rule Cons.IH)
  with step show ?case by simp
qed

text \<open>
  C2. If no stored request has its requester as its approver, this stays so after every
  history of create, update, submit, approve, reject, cancel and delete calls, whoever makes
  them and with whatever bodies. An update of a draft that names the requester as approver
  passes the handler's checks and is stopped by \<open>check_approver_not_self\<close>: the statement
  raises, the call is answered 500 and nothing is written.
\<close>

theorem no_self_approval_preserved:
  "no_self_approval db \<Longrightarrow> no_self_approval (run rt history db)"
  unfolding no_self_approval_def
  by (rule run_keeps) (simp_all add: row_ok_def same_constrained_columns_def)

theorem no_self_approval_preserved_witness:
  "no_self_approval demo_db \<and>
   perform demo_rt (token_of alice) 300 (Update 10 (empty_body\<lparr>body_approver_id := Some (UuidText 1 True)\<rparr>)) demo_db =
     (Some SERVER_ERROR, demo_db) \<and>
   no_self_approval
     (run demo_rt
        [(token_of alice, 300, Update 10 (empty_body\<lparr>body_approver_id := Some (UuidText 1 True)\<rparr>)),
         (token_of alice, 310, Update 10 (empty_body\<lparr>body_approver_id := Some (UuidText 3 True)\<rparr>)),
         (token_of alice, 320, Submit 10)]
        demo_db)"
proof -
  have start: "no_self_approval demo_db"
    by (simp add: no_self_approval_def demo_db_def trip_def)
  have refused: "perform demo_rt (token_of alice) 300
      (Update 10 (empty_body\<lparr>body_approver_id := Some (UuidText 1 True)\<rparr>)) demo_db = (Some SERVER_ERROR, demo_db)"
    by (simp add: updateRequest_def updateTravelRequest_def outcome_def findTravelRequestById_def
        no_fields_def empty_body_def converted_def assign_def row_ok_def user_exists_def
        truthy_date_def demo_db_def trip_def token_of_def alice_def bob_def carol_def dave_def)
  have "no_self_approval
     (run demo_rt
        [(token_of alice, 300, Update 10 (empty_body\<lparr>body_approver_id := Some (UuidText 1 True)\<rparr>)),
         (token_of alice, 310, Update 10 (empty_body\<lparr>body_approver_id := Some (UuidText 3 True)\<rparr>)),
         (token_of alice, 320, Submit 10)]
        demo_db)"
    using start by (rule no_self_approval_preserved)
  with start refused show ?thesis
    by (intro conjI)
qed

text \<open>
  The two facts about the table that the theorems on single requests assume,
  \<open>check_dates\<close> and the primary key, are kept by every history as well.
\<close>

lemma dates_in_order_preserved:
  "dates_in_order db \<Longrightarrow> dates_in_order (run rt history db)"
  unfolding dates_in_order_def
  by (rule run_keeps) (simp_all add: row_ok_def same_constrained_columns_def)

lemma same_ids_after_change:
  "(\<And>x. tr_id (change x) = tr_id x) \<Longrightarrow>
     map (tr_id \<circ> (\<lambda>x. if hit x then change x else x)) rows = map tr_id rows"
  by (induction rows) simp_all

lemma update_where_status_ids:
  assumes "\<And>x. tr_id (change x) = tr_id x"
  shows "map tr_id (travel_requests (snd (update_where_status i s change db))) =
           map tr_id (travel_requests db)"
  by (simp add: update_where_status_def same_ids_after_change assms)

lemma updateTravelRequest_ids:
  assumes "updateTravelRequest now requestId updateData db = Some (res, db')"
  shows "map tr_id (travel_requests db') = map tr_id (travel_requests db)"
proof (cases "no_fields updateData")
  case True
  with assms show ?thesis by (simp add: updateTravelRequest_def)
next
  case False
  with assms show ?thesis
    by (auto simp: updateTravelRequest_def Let_def same_ids_after_change
        split: Option.bind_splits if_splits)
qed

lemma createRequest_primary_key:
  assumes "primary_key db"
  shows "primary_key (snd (createRequest rt actor shouldSubmit newId now requestData db))"
proof (cases "createTravelRequest newId now (token_userId actor) requestData (\<not> shouldSubmit) db")
  case None
  with assms show ?thesis
    by (simp add: createRequest_def split: option.splits)
next
  case (Some p)
  obtain row db' where p: "p = (row, db')" by (cases p)
  from Some [unfolded p]
  have "tr_id row \<notin> set (map tr_id (travel_requests db))"
    and "travel_requests db' = travel_requests db @ [row]"
    by (auto simp: createTravelRequest_def Let_def split: Option.bind_splits if_splits)
  with assms have "primary_key db'"
    by (simp add: primary_key_def)
  with assms Some p show ?thesis
    by (simp add: createRequest_def split: option.splits)
qed

lemma updateRequest_primary_key:
  assumes "primary_key db"
  shows "primary_key (snd (updateRequest rt actor now requestId updateData db))"
proof (cases "updateTravelRequest now requestId updateData db")
  case None
  with assms show ?thesis
    by (simp add: updateRequest_def split: option.splits)
next
  case (Some p)
  obtain res db' where p: "p = (res, db')" by (cases p)
  from assms updateTravelRequest_ids [OF Some [unfolded p]] have "primary_key db'"
    by (simp add: primary_key_def)
  with assms Some p show ?thesis
    by (simp add: updateRequest_def split: option.splits)
qed

lemma status_changes_primary_key:
  assumes "primary_key db"
  shows "primary_key (snd (submitRequest actor now requestId db))"
    and "primary_key (snd (approveRequest actor now requestId comments db))"
    and "primary_key (snd (rejectRequest actor now requestId comments db))"
    and "primary_key (snd (cancelRequest actor now requestId db))"
proof -
  have kept: "primary_key (snd (update_where_status i s change db))"
    if "\<And>x. tr_id (change x) = tr_id x" for i s change
    using update_where_status_ids [of change i s db, OF that] assms
    by (simp add: primary_key_def)
  have "primary_key (snd (submitDraftRequest now requestId db))"
    unfolding submitDraftRequest_def by (rule kept) simp
  with assms show "primary_key (snd (submitRequest actor now requestId db))"
    by (auto simp: submitRequest_def split: prod.splits option.splits)
  show "primary_key (snd (approveRequest actor now requestId comments db))"
  proof (cases "approveTravelRequest now requestId comments db")
    case None
    with assms show ?thesis by (simp add: approveRequest_def)
  next
    case (Some p)
    then obtain stored where p: "p = update_where_status requestId Pending
        (\<lambda>r. r\<lparr>status := Approved, approval_comments := stored,
                approved_rejected_at := Some now, updated_at := now\<rparr>) db"
      by (auto simp: approveTravelRequest_def split: Option.bind_splits)
    have "primary_key (snd p)"
      unfolding p by (rule kept) simp
    with assms Some show ?thesis
      by (auto simp: approveRequest_def split: prod.splits option.splits)
  qed
  show "primary_key (snd (rejectRequest actor now requestId comments db))"
  proof (cases comments)
    case None
    with assms show ?thesis by (simp add: rejectRequest_def)
  next
    case (Some t)
    note comments = Some
    show ?thesis
    proof (cases "rejectTravelRequest now requestId t db")
      case None
      with assms comments show ?thesis by (simp add: rejectRequest_def)
    next
      case (Some p)
      then obtain stored where p: "p = update_where_status requestId Pending
          (\<lambda>r. r\<lparr>status := Rejected, approval_comments := Some stored,
                  approved_rejected_at := Some now, updated_at := now\<rparr>) db"
        by (auto simp: rejectTravelRequest_def split: Option.bind_splits)
      have "primary_key (snd p)"
        unfolding p by (rule kept) simp
      with assms comments Some show ?thesis
        by (auto simp: rejectRequest_def split: prod.splits option.splits)
    qed
  qed
  have "primary_key (snd (cancelTravelRequest now requestId db))"
    unfolding cancelTravelRequest_def by (rule kept) simp
  with assms show "primary_key (snd (cancelRequest actor now requestId db))"
    by (auto simp: cancelRequest_def split: prod.splits option.splits)
qed

lemma deleteRequest_primary_key:
  assumes "primary_key db"
  shows "primary_key (snd (deleteRequest actor requestId db))"
  using assms
  by (auto simp: deleteRequest_def deleteTravelRequest_def primary_key_def distinct_map_filter
      split: prod.splits bool.splits)

lemma perform_primary_key:
  "primary_key db \<Longrightarrow> primary_key (snd (perform rt actor now a db))"
  by (cases a)
     (simp_all add: snd_outcome createRequest_primary_key updateRequest_primary_key
        status_changes_primary_key deleteRequest_primary_key)

lemma primary_key_preserved:
  "primary_key db \<Longrightarrow> primary_key (run rt history db)"
proof (induction history arbitrary: db)
  case Nil
  then show ?case by simp
next
  case (Cons step history)
  obtain actor now a where step: "step = (actor, now, a)" by (cases step)
  from Cons.prems have "primary_key (snd (perform rt actor now a db))"
    by (rule perform_primary_key)
  then have "primary_key (run rt history (snd (perform rt actor now a db)))"
    by (rule Cons.IH)
  with step show ?case by simp
qed

section \<open>Terminal states\<close>























end
